theory Spec2Isabelle
  imports Complex_Main
begin

section \<open>Tensors\<close>

text \<open>
  The losses of \<^verbatim>\<open>ivy/functional/ivy/experimental/losses.py\<close> work on the arrays of
  the host framework. A tensor is modelled as its shape together with its elements in
  row-major order. Elements, and the scalar \<open>epsilon\<close>, are real numbers, so every
  element is finite and arithmetic is exact: the program's floating-point arrays also
  hold infinities and not-a-number values and round every result (there \<open>t - t\<close> is
  not zero for an infinite \<open>t\<close>, and \<open>1 - epsilon\<close> is 1 for a tiny
  \<open>epsilon\<close>). What is proved below is about finite elements and says nothing that
  depends on rounding. Where a backend would produce an infinity or a not-a-number value
  from finite elements (the logarithm of a non-positive number, the mean of no elements)
  the model returns an error value instead of a tensor, so that no theorem rests on what
  HOL makes of \<open>ln 0\<close> or \<open>0 / 0\<close>.
\<close>

record tensor =
  shape :: "nat list"
  data :: "real list"

datatype error =
    ValueError        \<comment> \<open>the reduction string is not an allowed one\<close>
  | BroadcastError    \<comment> \<open>two shapes cannot be broadcast together\<close>
  | LogDomainError    \<comment> \<open>logarithm of a number that is not positive\<close>
  | EmptyMeanError    \<comment> \<open>mean of a tensor with no elements\<close>

text \<open>A well-formed tensor holds as many elements as its shape says.\<close>

definition wf_tensor :: "tensor \<Rightarrow> bool" where
  "wf_tensor t = (length (data t) = prod_list (shape t))"

text \<open>The tensor of rank zero that holds one number.\<close>

definition scalar :: "real \<Rightarrow> tensor" where
  "scalar v = \<lparr>shape = [], data = [v]\<rparr>"

definition bind_err :: "error + 'a \<Rightarrow> ('a \<Rightarrow> error + 'b) \<Rightarrow> error + 'b" where
  "bind_err m f = (case m of Inl e \<Rightarrow> Inl e | Inr x \<Rightarrow> f x)"

subsection \<open>Broadcasting\<close>

text \<open>
  Modelled from the spec: the broadcasting of shapes by the host's tensor arithmetic (the
  array operators are not in this file of the repository). Shapes are aligned at their
  last dimension; two dimensions agree when they are equal or one of them is 1.
  \<open>broadcast_rev\<close> works on shapes taken last dimension first.
\<close>

fun broadcast_rev :: "nat list \<Rightarrow> nat list \<Rightarrow> nat list option" where
  "broadcast_rev [] ys = Some ys"
| "broadcast_rev (x # xs) [] = Some (x # xs)"
| "broadcast_rev (x # xs) (y # ys) =
     (if x = y \<or> y = 1 then map_option ((#) x) (broadcast_rev xs ys)
      else if x = 1 then map_option ((#) y) (broadcast_rev xs ys)
      else None)"

definition broadcast_shapes :: "nat list \<Rightarrow> nat list \<Rightarrow> nat list option" where
  "broadcast_shapes a b = map_option rev (broadcast_rev (rev a) (rev b))"

text \<open>
  Modelled from the spec: the order of a tensor's elements, which the host fixes and this
  file of the repository does not. All indices of a shape, in row-major order.
\<close>

fun all_indices :: "nat list \<Rightarrow> nat list list" where
  "all_indices [] = [[]]"
| "all_indices (d # ds) = concat (map (\<lambda>i. map ((#) i) (all_indices ds)) [0..<d])"

text \<open>
  Modelled from the spec: the position of an index in the row-major data of a tensor
  (host indexing, not in this file of the repository). Shape and index are both taken last
  dimension first, so that they are aligned at the last dimension: the leading dimensions
  of the index that the tensor does not have are ignored, and a dimension of size 1 is
  read at position 0 whatever the index says (broadcasting).
\<close>

fun roffset :: "nat list \<Rightarrow> nat list \<Rightarrow> nat" where
  "roffset (d # ds) (i # js) = (if d = 1 then 0 else i) + d * roffset ds js"
| "roffset _ _ = 0"

text \<open>
  Modelled from the spec: reading a tensor at an index of a shape it broadcasts to (host
  indexing, not in this file of the repository).
\<close>

definition tget :: "tensor \<Rightarrow> nat list \<Rightarrow> real" where
  "tget t idx = data t ! roffset (rev (shape t)) (rev idx)"

text \<open>
  Modelled from the spec: building a tensor of a given shape from its elements by index,
  and the elementwise operation on two tensors with broadcasting (the host's array
  operators, not in this file of the repository). Shapes that do not broadcast together
  are an error.
\<close>

definition tabulate :: "nat list \<Rightarrow> (nat list \<Rightarrow> real) \<Rightarrow> tensor" where
  "tabulate s f = \<lparr>shape = s, data = map f (all_indices s)\<rparr>"

definition tbinop :: "(real \<Rightarrow> real \<Rightarrow> real) \<Rightarrow> tensor \<Rightarrow> tensor \<Rightarrow> error + tensor" where
  "tbinop f a b =
     (case broadcast_shapes (shape a) (shape b) of
        None \<Rightarrow> Inl BroadcastError
      | Some s \<Rightarrow> Inr (tabulate s (\<lambda>idx. f (tget a idx) (tget b idx))))"

text \<open>
  Modelled from the spec: bringing a tensor to a shape it broadcasts to (host
  broadcasting, not in this file of the repository); there is no result when the tensor
  does not broadcast to exactly that shape.
\<close>

definition broadcast_to :: "tensor \<Rightarrow> nat list \<Rightarrow> tensor option" where
  "broadcast_to t s =
     (if broadcast_shapes (shape t) s = Some s then Some (tabulate s (tget t)) else None)"

subsection \<open>Array primitives\<close>

text \<open>
  Modelled from the spec: applying a function to every element of a tensor, the base of
  the host's elementwise primitives, which the spec names as external dependencies and
  which are not in this file of the repository.
\<close>

definition tmap :: "(real \<Rightarrow> real) \<Rightarrow> tensor \<Rightarrow> tensor" where
  "tmap f t = \<lparr>shape = shape t, data = map f (data t)\<rparr>"

text \<open>
  Modelled from the spec: the arithmetic operators of the host's arrays on two tensors
  (\<^verbatim>\<open>-\<close>, \<^verbatim>\<open>+\<close>, \<^verbatim>\<open>*\<close>), not in this file of the repository.
\<close>

definition tsub :: "tensor \<Rightarrow> tensor \<Rightarrow> error + tensor" where
  "tsub = tbinop (-)"

definition tadd :: "tensor \<Rightarrow> tensor \<Rightarrow> error + tensor" where
  "tadd = tbinop (+)"

definition tmul :: "tensor \<Rightarrow> tensor \<Rightarrow> error + tensor" where
  "tmul = tbinop (*)"

text \<open>
  Modelled from the spec: the unary minus of the host's arrays, and \<^verbatim>\<open>1 - x\<close> with
  the Python number 1 on the left (array operators, not in this file of the repository).
\<close>

definition tneg :: "tensor \<Rightarrow> tensor" where
  "tneg = tmap uminus"

definition one_minus :: "tensor \<Rightarrow> tensor" where
  "one_minus = tmap (\<lambda>x. 1 - x)"

text \<open>
  Modelled from the spec: \<^verbatim>\<open>ivy.square\<close> and \<^verbatim>\<open>ivy.abs\<close>, not in this file
  of the repository.
\<close>

definition tsquare :: "tensor \<Rightarrow> tensor" where
  "tsquare = tmap (\<lambda>x. x * x)"

definition tabs :: "tensor \<Rightarrow> tensor" where
  "tabs = tmap abs"

text \<open>
  Modelled from the spec: \<^verbatim>\<open>ivy.sigmoid\<close>, not in this file of the repository: the
  logistic function, elementwise.
\<close>

definition sigmoid :: "real \<Rightarrow> real" where
  "sigmoid x = 1 / (1 + exp (- x))"

definition tsigmoid :: "tensor \<Rightarrow> tensor" where
  "tsigmoid = tmap sigmoid"

text \<open>
  Modelled from the spec: \<^verbatim>\<open>ivy.clip\<close>, not in this file of the repository:
  every element is raised to the lower bound and then lowered to the upper bound.
\<close>

definition clip :: "real \<Rightarrow> real \<Rightarrow> real \<Rightarrow> real" where
  "clip x lo hi = min (max x lo) hi"

definition tclip :: "tensor \<Rightarrow> real \<Rightarrow> real \<Rightarrow> tensor" where
  "tclip t lo hi = tmap (\<lambda>x. clip x lo hi) t"

text \<open>
  Modelled from the spec: \<^verbatim>\<open>ivy.log\<close>, not in this file of the repository: the
  natural logarithm, elementwise. The logarithm of a number that is not positive is the
  error the clipping is there to avoid.
\<close>

definition tlog :: "tensor \<Rightarrow> error + tensor" where
  "tlog t = (if list_all (\<lambda>x. 0 < x) (data t) then Inr (tmap ln t) else Inl LogDomainError)"

text \<open>
  Modelled from the spec: \<^verbatim>\<open>ivy.sum\<close> and \<^verbatim>\<open>ivy.mean\<close> over all elements (no
  axis given), not in this file of the repository: the result has rank zero. The mean
  of no elements does not exist.
\<close>

definition tsum :: "tensor \<Rightarrow> tensor" where
  "tsum t = scalar (sum_list (data t))"

definition tmean :: "tensor \<Rightarrow> error + tensor" where
  "tmean t =
     (if data t = [] then Inl EmptyMeanError
      else Inr (scalar (sum_list (data t) / real (length (data t)))))"

text \<open>
  Modelled from the spec: \<^verbatim>\<open>ivy.mean\<close> over all elements with
  \<^verbatim>\<open>keepdims=True\<close>, not in this file of the repository: the result keeps the rank
  of its argument, every dimension having size 1.
\<close>

definition tmean_keepdims :: "tensor \<Rightarrow> error + tensor" where
  "tmean_keepdims t =
     (if data t = [] then Inl EmptyMeanError
      else Inr \<lparr>shape = replicate (length (shape t)) 1,
                data = [sum_list (data t) / real (length (data t))]\<rparr>)"

section \<open>Validation, reduction and the output buffer\<close>

text \<open>
  Modelled from the spec: \<^verbatim>\<open>ivy.utils.assertions.check_elem_in_list\<close>, which is
  not in this file of the repository. An element outside the list fails validation with
  a value-error kind.
\<close>

definition check_elem_in_list :: "string \<Rightarrow> string list \<Rightarrow> error + unit" where
  "check_elem_in_list elem xs = (if elem \<in> set xs then Inr () else Inl ValueError)"

text \<open>
  The output buffer is the one piece of state a call can change. A call takes the
  buffer the caller supplied, if any, and yields what it returns or raises together with
  the buffer after the call.
\<close>

type_synonym outcome = "(error + tensor) \<times> tensor option"

text \<open>
  Modelled from the spec: writing a result into the output buffer. The buffer's shape
  must be broadcast-compatible with the result; the buffer then holds the result, brought
  to the buffer's shape, and is what the call returns. Without a buffer the result itself
  is returned.
\<close>

definition write_out :: "tensor \<Rightarrow> tensor option \<Rightarrow> outcome" where
  "write_out v out =
     (case out of
        None \<Rightarrow> (Inr v, None)
      | Some b \<Rightarrow>
          (case broadcast_to v (shape b) of
             None \<Rightarrow> (Inl BroadcastError, out)
           | Some w \<Rightarrow> (Inr w, Some w)))"

text \<open>
  Modelled from the spec: the shared reduction helper \<^verbatim>\<open>_reduce_loss\<close> of
  \<^verbatim>\<open>ivy.functional.ivy.losses\<close>, which is not in this file of the repository:
  "given a reduction mode, a tensor, an optional axis, and an optional output buffer,
  returns the tensor unchanged for none, its sum for sum, or its mean for mean, writing
  into the output buffer when supplied". The source shows one thing more, the sign. In
  the positive-weight branch (line 108) the tensor handed to the helper is
  \<^verbatim>\<open>-(true * -ivy.log(pred) * pos_weight + (1 - true) * -ivy.log(1 - pred))\<close>,
  that is \<open>true * log p * pos_weight + (1 - true) * log (1 - p)\<close>, the log-likelihood,
  which is never positive for labels 0 and 1 and a positive weight; the docstring example
  of that branch (lines 68 to 73) prints the positive numbers 2.672, 0.002, 0.029 and 5.305
  for it with reduction none. So the helper returns the negative of the tensor, of its
  sum or of its mean, and the model negates. Every call in this file passes no axis, so
  the model reduces over all elements and has no axis argument. A mode outside the three,
  which validation has excluded before the helper is called, is taken as invalid. (An
  Isabelle name cannot start with an underscore.)
\<close>

definition reduce_loss :: "string \<Rightarrow> tensor \<Rightarrow> tensor option \<Rightarrow> outcome" where
  "reduce_loss red loss out =
     (case (if red = ''none'' then Inr loss
            else if red = ''sum'' then Inr (tsum loss)
            else if red = ''mean'' then tmean loss
            else Inl ValueError) of
        Inl e \<Rightarrow> (Inl e, out)
      | Inr v \<Rightarrow> write_out (tneg v) out)"

section \<open>The loss functions\<close>

text \<open>
  \<^verbatim>\<open>mse_loss\<close>: the reduction is validated, then the mean of the squared
  difference is taken with \<^verbatim>\<open>keepdims=True\<close>, then the reduction helper runs on that
  mean:
  \<^verbatim>\<open>
  ivy.utils.assertions.check_elem_in_list(reduction, ["none", "sum", "mean"])
  result = ivy.mean(ivy.square(true - pred), keepdims=True)
  return _reduce_loss(reduction, result, None, out)
  \<close>
  An exception of a step ends the call; the output buffer is written by the helper only.
\<close>

definition mse_loss :: "tensor \<Rightarrow> tensor \<Rightarrow> string \<Rightarrow> tensor option \<Rightarrow> outcome" where
  "mse_loss true pred reduction out =
     (case check_elem_in_list reduction [''none'', ''sum'', ''mean''] of
        Inl e \<Rightarrow> (Inl e, out)
      | Inr _ \<Rightarrow>
          (case bind_err (tsub true pred) (\<lambda>d. tmean_keepdims (tsquare d)) of
             Inl e \<Rightarrow> (Inl e, out)
           | Inr result \<Rightarrow> reduce_loss reduction result out))"

text \<open>
  \<^verbatim>\<open>mae_loss\<close>: as \<^verbatim>\<open>mse_loss\<close>, with the absolute difference:
  \<^verbatim>\<open>
  ivy.utils.assertions.check_elem_in_list(reduction, ["none", "sum", "mean"])
  result = ivy.mean(ivy.abs(true - pred), keepdims=True)
  return _reduce_loss(reduction, result, None, out)
  \<close>
\<close>

definition mae_loss :: "tensor \<Rightarrow> tensor \<Rightarrow> string \<Rightarrow> tensor option \<Rightarrow> outcome" where
  "mae_loss true pred reduction out =
     (case check_elem_in_list reduction [''none'', ''sum'', ''mean''] of
        Inl e \<Rightarrow> (Inl e, out)
      | Inr _ \<Rightarrow>
          (case bind_err (tsub true pred) (\<lambda>d. tmean_keepdims (tabs d)) of
             Inl e \<Rightarrow> (Inl e, out)
           | Inr result \<Rightarrow> reduce_loss reduction result out))"

section \<open>Binary cross-entropy with logits\<close>

text \<open>
  Modelled from the spec: the unweighted binary-cross-entropy primitive
  \<^verbatim>\<open>ivy.binary_cross_entropy\<close>, which is not in this file of the repository. It
  takes probabilities, an epsilon and a reduction; the model validates the reduction, keeps
  the probabilities inside \<open>[epsilon, 1 - epsilon]\<close>, computes the log-likelihood
  \<open>true * log p + (1 - true) * log (1 - p)\<close> elementwise and hands it to the shared
  reduction helper together with the output buffer; the helper's negation makes it the
  cross-entropy \<open>- (true * log p + (1 - true) * log (1 - p))\<close>, the positive numbers
  of the docstring examples without a weight.
\<close>

definition binary_cross_entropy ::
    "tensor \<Rightarrow> tensor \<Rightarrow> real \<Rightarrow> string \<Rightarrow> tensor option \<Rightarrow> outcome" where
  "binary_cross_entropy true pred epsilon reduction out =
     (case check_elem_in_list reduction [''none'', ''sum'', ''mean''] of
        Inl e \<Rightarrow> (Inl e, out)
      | Inr _ \<Rightarrow>
          (let p = tclip pred epsilon (1 - epsilon) in
           case bind_err (tlog p) (\<lambda>lp.
                bind_err (tmul true lp) (\<lambda>a.
                bind_err (tlog (one_minus p)) (\<lambda>lq.
                bind_err (tmul (one_minus true) lq) (\<lambda>b.
                tadd a b)))) of
             Inl e \<Rightarrow> (Inl e, out)
           | Inr loss \<Rightarrow> reduce_loss reduction loss out))"

text \<open>
  \<^verbatim>\<open>binary_cross_entropy_with_logits\<close>:
  \<^verbatim>\<open>
  ivy.utils.assertions.check_elem_in_list(reduction, ["none", "sum", "mean"])
  pred = ivy.sigmoid(pred)
  if pos_weight is not None:
      pred = ivy.clip(pred, epsilon, 1 - epsilon)
      result = -(true * -ivy.log(pred) * pos_weight + (1 - true) * -ivy.log(1 - pred))
      result = _reduce_loss(reduction, result, None, out)
  else:
      result = ivy.binary_cross_entropy(true, pred, epsilon=epsilon,
                                        reduction=reduction, out=out)
  return result
  \<close>
  The reduction is validated first, then the logits go through the sigmoid. With a
  positive weight the probabilities are clipped and the formula is computed operand by
  operand in Python's order (unary minus binds tighter than the product) and reduced;
  without one the call is handed to the unweighted primitive. The two successive values of
  the Python variable \<^verbatim>\<open>pred\<close> are \<open>pred1\<close> and \<open>pred2\<close>.
\<close>

definition binary_cross_entropy_with_logits ::
    "tensor \<Rightarrow> tensor \<Rightarrow> real \<Rightarrow> tensor option \<Rightarrow> string \<Rightarrow> tensor option \<Rightarrow> outcome" where
  "binary_cross_entropy_with_logits true pred epsilon pos_weight reduction out =
     (case check_elem_in_list reduction [''none'', ''sum'', ''mean''] of
        Inl e \<Rightarrow> (Inl e, out)
      | Inr _ \<Rightarrow>
          (let pred1 = tsigmoid pred in
           case pos_weight of
             Some w \<Rightarrow>
               (let pred2 = tclip pred1 epsilon (1 - epsilon) in
                case bind_err (tlog pred2) (\<lambda>lp.
                     bind_err (tmul true (tneg lp)) (\<lambda>a.
                     bind_err (tmul a w) (\<lambda>b.
                     bind_err (tlog (one_minus pred2)) (\<lambda>lq.
                     bind_err (tmul (one_minus true) (tneg lq)) (\<lambda>c.
                     bind_err (tadd b c) (\<lambda>s. Inr (tneg s))))))) of
                  Inl e \<Rightarrow> (Inl e, out)
                | Inr result \<Rightarrow> reduce_loss reduction result out)
           | None \<Rightarrow> binary_cross_entropy true pred1 epsilon reduction out))"

section \<open>Notions used to state the properties\<close>

text \<open>
  The value of \<^verbatim>\<open>result\<close> in the positive-weight branch of
  \<^verbatim>\<open>binary_cross_entropy_with_logits\<close> before the reduction helper is called
  (lines 107 and 108 of the source), as a function of the logits.
\<close>

definition pos_weight_result :: "tensor \<Rightarrow> tensor \<Rightarrow> real \<Rightarrow> tensor \<Rightarrow> error + tensor" where
  "pos_weight_result true pred epsilon w =
     (let pred2 = tclip (tsigmoid pred) epsilon (1 - epsilon) in
      bind_err (tlog pred2) (\<lambda>lp.
      bind_err (tmul true (tneg lp)) (\<lambda>a.
      bind_err (tmul a w) (\<lambda>b.
      bind_err (tlog (one_minus pred2)) (\<lambda>lq.
      bind_err (tmul (one_minus true) (tneg lq)) (\<lambda>c.
      bind_err (tadd b c) (\<lambda>s. Inr (tneg s))))))))"

text \<open>
  The tensor the unweighted primitive hands to the reduction helper, as a function of the
  probabilities.
\<close>

definition unweighted_result :: "tensor \<Rightarrow> tensor \<Rightarrow> real \<Rightarrow> error + tensor" where
  "unweighted_result true pred epsilon =
     (let p = tclip pred epsilon (1 - epsilon) in
      bind_err (tlog p) (\<lambda>lp.
      bind_err (tmul true lp) (\<lambda>a.
      bind_err (tlog (one_minus p)) (\<lambda>lq.
      bind_err (tmul (one_minus true) lq) (\<lambda>b.
      tadd a b)))))"

text \<open>
  The formula of the spec for one element: the clipped probability of a logit \<open>x\<close>, and
  the weighted cross-entropy term of a label \<open>t\<close>, a logit \<open>x\<close> and a weight \<open>w\<close>.
\<close>

definition clipped_prob :: "real \<Rightarrow> real \<Rightarrow> real" where
  "clipped_prob epsilon x = min (max (1 / (1 + exp (- x))) epsilon) (1 - epsilon)"

definition weighted_term :: "real \<Rightarrow> real \<Rightarrow> real \<Rightarrow> real \<Rightarrow> real" where
  "weighted_term epsilon t x w =
     - (t * - ln (clipped_prob epsilon x) * w + (1 - t) * - ln (1 - clipped_prob epsilon x))"

text \<open>An index lies in a shape when it has the shape's rank and is below it everywhere.\<close>

definition valid_index :: "nat list \<Rightarrow> nat list \<Rightarrow> bool" where
  "valid_index s idx = list_all2 (<) idx s"

text \<open>
  Reduction consistency of a loss \<open>f\<close>, given as a function of the reduction string
  alone (no output buffer): when \<open>f\<close> with none returns a tensor, \<open>f\<close> with sum
  returns the sum of its elements and \<open>f\<close> with mean returns that sum divided by their
  number; there being no quotient when there is no element, the mean then fails.
\<close>

definition reduction_consistent :: "(string \<Rightarrow> outcome) \<Rightarrow> bool" where
  "reduction_consistent f =
     (case fst (f ''none'') of
        Inl e \<Rightarrow> True
      | Inr l \<Rightarrow>
          fst (f ''sum'') = Inr (scalar (sum_list (data l))) \<and>
          fst (f ''mean'') =
            (if data l = [] then Inl EmptyMeanError
             else Inr (scalar (sum_list (data l) / real (length (data l))))))"

text \<open>
  The number of elements a call returns: one without an output buffer, as many as the
  buffer holds with one.
\<close>

definition out_count :: "tensor option \<Rightarrow> nat" where
  "out_count out = (case out of None \<Rightarrow> 1 | Some b \<Rightarrow> prod_list (shape b))"

text \<open>
  Notions for reading tensors by index. On shapes taken last dimension first,
  \<open>bc_le a c\<close> says that \<open>a\<close> broadcasts to \<open>c\<close>; \<open>rin rs ri\<close> that the
  index \<open>ri\<close> can be read in a tensor of shape \<open>rs\<close> (it is in range wherever the
  dimension is not 1); \<open>rproj rs ri\<close> is the index of shape \<open>rs\<close> that \<open>ri\<close> is
  read at. \<open>proj\<close> and \<open>reads\<close> are the same for shapes and indices in their usual
  order.
\<close>

fun bc_le :: "nat list \<Rightarrow> nat list \<Rightarrow> bool" where
  "bc_le [] c = True"
| "bc_le (x # xs) [] = False"
| "bc_le (x # xs) (y # ys) = ((x = y \<or> x = 1) \<and> bc_le xs ys)"

fun rin :: "nat list \<Rightarrow> nat list \<Rightarrow> bool" where
  "rin [] ri = True"
| "rin (d # ds) [] = False"
| "rin (d # ds) (i # js) = ((d = 1 \<or> i < d) \<and> rin ds js)"

fun rproj :: "nat list \<Rightarrow> nat list \<Rightarrow> nat list" where
  "rproj (d # ds) (i # js) = (if d = 1 then 0 else i) # rproj ds js"
| "rproj _ _ = []"

definition proj :: "nat list \<Rightarrow> nat list \<Rightarrow> nat list" where
  "proj s idx = rev (rproj (rev s) (rev idx))"

definition reads :: "tensor \<Rightarrow> nat list \<Rightarrow> bool" where
  "reads t idx = rin (rev (shape t)) (rev idx)"

section \<open>Basic facts\<close>

lemma check_reduction_eq:
  "check_elem_in_list r [''none'', ''sum'', ''mean''] =
     (if r = ''none'' \<or> r = ''sum'' \<or> r = ''mean'' then Inr () else Inl ValueError)"
  by (simp add: check_elem_in_list_def)

lemma write_out_None: "write_out v None = (Inr v, None)"
  by (simp add: write_out_def)

lemma reduce_loss_none: "reduce_loss ''none'' m out = write_out (tneg m) out"
  by (simp add: reduce_loss_def)

lemma tneg_scalar: "tneg (scalar v) = scalar (- v)"
  by (simp add: tneg_def tmap_def scalar_def)

lemma tneg_record: "tneg \<lparr>shape = s, data = xs\<rparr> = \<lparr>shape = s, data = map uminus xs\<rparr>"
  by (simp add: tneg_def tmap_def)

lemma reduce_loss_sum:
  "reduce_loss ''sum'' m out = write_out (scalar (- sum_list (data m))) out"
  by (simp add: reduce_loss_def tsum_def tneg_scalar)

lemma reduce_loss_mean:
  "reduce_loss ''mean'' m out =
     (if data m = [] then (Inl EmptyMeanError, out)
      else write_out (scalar (- (sum_list (data m) / real (length (data m))))) out)"
  by (simp add: reduce_loss_def tmean_def tneg_scalar)

lemma broadcast_rev_same: "broadcast_rev xs xs = Some xs"
  by (induction xs) auto

lemma broadcast_shapes_same: "broadcast_shapes s s = Some s"
  by (simp add: broadcast_shapes_def broadcast_rev_same)

lemma length_all_indices: "length (all_indices s) = prod_list s"
  by (induction s) (simp_all add: length_concat comp_def sum_list_triv)

lemma roffset_ones: "roffset (replicate k (Suc 0)) ri = 0"
proof (induction k arbitrary: ri)
  case 0
  then show ?case by simp
next
  case (Suc k)
  then show ?case by (cases ri) simp_all
qed

lemma tget_single: "tget \<lparr>shape = replicate k (Suc 0), data = [v]\<rparr> idx = v"
  by (simp add: tget_def roffset_ones)

lemma tget_scalar: "tget (scalar v) idx = v"
  by (simp add: tget_def scalar_def)

lemma mse_loss_eq:
  "mse_loss true pred r out =
     (if r = ''none'' \<or> r = ''sum'' \<or> r = ''mean'' then
        (case tsub true pred of
           Inl e \<Rightarrow> (Inl e, out)
         | Inr d \<Rightarrow>
             if data d = [] then (Inl EmptyMeanError, out)
             else reduce_loss r \<lparr>shape = replicate (length (shape d)) 1,
                    data = [(\<Sum>x\<leftarrow>data d. x * x) / real (length (data d))]\<rparr> out)
      else (Inl ValueError, out))"
  by (simp add: mse_loss_def check_reduction_eq bind_err_def tmean_keepdims_def tsquare_def
      tmap_def split: sum.splits)

lemma mae_loss_eq:
  "mae_loss true pred r out =
     (if r = ''none'' \<or> r = ''sum'' \<or> r = ''mean'' then
        (case tsub true pred of
           Inl e \<Rightarrow> (Inl e, out)
         | Inr d \<Rightarrow>
             if data d = [] then (Inl EmptyMeanError, out)
             else reduce_loss r \<lparr>shape = replicate (length (shape d)) 1,
                    data = [(\<Sum>x\<leftarrow>data d. \<bar>x\<bar>) / real (length (data d))]\<rparr> out)
      else (Inl ValueError, out))"
  by (simp add: mae_loss_def check_reduction_eq bind_err_def tmean_keepdims_def tabs_def
      tmap_def split: sum.splits)

lemma reduce_loss_single:
  "reduce_loss r \<lparr>shape = s, data = [v]\<rparr> out =
     (if r = ''none'' then write_out \<lparr>shape = s, data = [- v]\<rparr> out
      else if r = ''sum'' \<or> r = ''mean'' then write_out (scalar (- v)) out
      else (Inl ValueError, out))"
  by (simp add: reduce_loss_def tsum_def tmean_def tneg_scalar tneg_record)

lemma tsub_example:
  "tsub \<lparr>shape = [2, 2], data = [1, 2, 3, 4]\<rparr> \<lparr>shape = [2], data = [1, 4]\<rparr>
     = Inr \<lparr>shape = [2, 2], data = [0, -2, 2, 0]\<rparr>"
  by (simp add: tsub_def tbinop_def broadcast_shapes_def tabulate_def tget_def upt_rec)

lemma write_out_data:
  assumes "fst (write_out m out) = Inr a"
  shows "data a = (case out of None \<Rightarrow> data m | Some b \<Rightarrow> map (tget m) (all_indices (shape b)))"
proof (cases out)
  case None
  with assms show ?thesis by (simp add: write_out_def)
next
  case (Some b)
  with assms have "broadcast_to m (shape b) = Some a"
    by (simp add: write_out_def split: option.splits)
  then have "a = tabulate (shape b) (tget m)"
    by (simp add: broadcast_to_def split: if_splits)
  with Some show ?thesis by (simp add: tabulate_def)
qed

lemma map_const_replicate: "(\<And>x. f x = v) \<Longrightarrow> map f xs = replicate (length xs) v"
  by (induction xs) simp_all

lemma write_out_single:
  assumes "fst (write_out m out) = Inr a" and "data m = [v]" and "\<And>idx. tget m idx = v"
  shows "data a = replicate (out_count out) v"
proof (cases out)
  case None
  with assms(1,2) show ?thesis by (simp add: write_out_data out_count_def)
next
  case (Some b)
  have "map (tget m) (all_indices (shape b)) = replicate (length (all_indices (shape b))) v"
    by (rule map_const_replicate) (rule assms(3))
  with Some assms(1) show ?thesis
    by (simp add: write_out_data out_count_def length_all_indices)
qed

lemma reduce_single_result:
  assumes "fst (reduce_loss r \<lparr>shape = replicate k 1, data = [v]\<rparr> out) = Inr a"
  shows "data a = replicate (out_count out) (- v)"
proof (cases "r = ''none''")
  case True
  with assms have "fst (write_out \<lparr>shape = replicate k (Suc 0), data = [- v]\<rparr> out) = Inr a"
    by (simp add: reduce_loss_single)
  then show ?thesis
    by (rule write_out_single) (simp_all add: tget_single)
next
  case False
  with assms have "fst (write_out (scalar (- v)) out) = Inr a"
    by (simp add: reduce_loss_single split: if_splits)
  then show ?thesis
    by (rule write_out_single) (simp_all add: tget_scalar [unfolded scalar_def] scalar_def)
qed


lemma mse_loss_result:
  assumes "fst (mse_loss true pred r out) = Inr a"
  shows "\<exists>d. tsub true pred = Inr d \<and> data d \<noteq> [] \<and>
           data a = replicate (out_count out) (- ((\<Sum>x\<leftarrow>data d. x * x) / real (length (data d))))"
proof -
  from assms have r: "r = ''none'' \<or> r = ''sum'' \<or> r = ''mean''"
    by (simp add: mse_loss_eq split: if_splits)
  show ?thesis
  proof (cases "tsub true pred")
    case (Inl e)
    with assms r show ?thesis by (simp add: mse_loss_eq)
  next
    case (Inr d)
    with assms r have ne: "data d \<noteq> []"
      by (auto simp: mse_loss_eq)
    with assms r Inr have "fst (reduce_loss r \<lparr>shape = replicate (length (shape d)) 1,
        data = [(\<Sum>x\<leftarrow>data d. x * x) / real (length (data d))]\<rparr> out) = Inr a"
      by (simp add: mse_loss_eq)
    then have "data a = replicate (out_count out) (- ((\<Sum>x\<leftarrow>data d. x * x) / real (length (data d))))"
      by (rule reduce_single_result)
    with Inr ne show ?thesis by simp
  qed
qed

lemma mae_loss_result:
  assumes "fst (mae_loss true pred r out) = Inr a"
  shows "\<exists>d. tsub true pred = Inr d \<and> data d \<noteq> [] \<and>
           data a = replicate (out_count out) (- ((\<Sum>x\<leftarrow>data d. \<bar>x\<bar>) / real (length (data d))))"
proof -
  from assms have r: "r = ''none'' \<or> r = ''sum'' \<or> r = ''mean''"
    by (simp add: mae_loss_eq split: if_splits)
  show ?thesis
  proof (cases "tsub true pred")
    case (Inl e)
    with assms r show ?thesis by (simp add: mae_loss_eq)
  next
    case (Inr d)
    with assms r have ne: "data d \<noteq> []"
      by (auto simp: mae_loss_eq)
    with assms r Inr have "fst (reduce_loss r \<lparr>shape = replicate (length (shape d)) 1,
        data = [(\<Sum>x\<leftarrow>data d. \<bar>x\<bar>) / real (length (data d))]\<rparr> out) = Inr a"
      by (simp add: mae_loss_eq)
    then have "data a = replicate (out_count out) (- ((\<Sum>x\<leftarrow>data d. \<bar>x\<bar>) / real (length (data d))))"
      by (rule reduce_single_result)
    with Inr ne show ?thesis by simp
  qed
qed

lemma mse_loss_None_data:
  "map_sum id data (fst (mse_loss true pred r None)) =
     (if r = ''none'' \<or> r = ''sum'' \<or> r = ''mean'' then
        (case tsub true pred of
           Inl e \<Rightarrow> Inl e
         | Inr d \<Rightarrow>
             if data d = [] then Inl EmptyMeanError
             else Inr [- ((\<Sum>x\<leftarrow>data d. x * x) / real (length (data d)))])
      else Inl ValueError)"
  by (simp add: mse_loss_eq reduce_loss_single write_out_None scalar_def split: sum.splits)

lemma mae_loss_None_data:
  "map_sum id data (fst (mae_loss true pred r None)) =
     (if r = ''none'' \<or> r = ''sum'' \<or> r = ''mean'' then
        (case tsub true pred of
           Inl e \<Rightarrow> Inl e
         | Inr d \<Rightarrow>
             if data d = [] then Inl EmptyMeanError
             else Inr [- ((\<Sum>x\<leftarrow>data d. \<bar>x\<bar>) / real (length (data d)))])
      else Inl ValueError)"
  by (simp add: mae_loss_eq reduce_loss_single write_out_None scalar_def split: sum.splits)


lemma same_data_mse:
  assumes a: "fst (mse_loss true pred r1 out) = Inr a"
    and b: "fst (mse_loss true pred r2 out) = Inr b"
  shows "data a = data b \<and> (\<exists>v. data a = replicate (length (data a)) v)"
proof -
  from mse_loss_result [OF a] obtain d where
    d: "tsub true pred = Inr d"
       "data a = replicate (out_count out) (- ((\<Sum>x\<leftarrow>data d. x * x) / real (length (data d))))"
    by blast
  from mse_loss_result [OF b] obtain d' where
    d': "tsub true pred = Inr d'"
        "data b = replicate (out_count out) (- ((\<Sum>x\<leftarrow>data d'. x * x) / real (length (data d'))))"
    by blast
  from d(1) d'(1) have "d' = d" by simp
  with d(2) d'(2) have "data a = data b" by simp
  moreover from d(2) have "data a = replicate (length (data a)) (- ((\<Sum>x\<leftarrow>data d. x * x) / real (length (data d))))"
    by simp
  ultimately show ?thesis by blast
qed

lemma same_data_mae:
  assumes a: "fst (mae_loss true pred r1 out) = Inr a"
    and b: "fst (mae_loss true pred r2 out) = Inr b"
  shows "data a = data b \<and> (\<exists>v. data a = replicate (length (data a)) v)"
proof -
  from mae_loss_result [OF a] obtain d where
    d: "tsub true pred = Inr d"
       "data a = replicate (out_count out) (- ((\<Sum>x\<leftarrow>data d. \<bar>x\<bar>) / real (length (data d))))"
    by blast
  from mae_loss_result [OF b] obtain d' where
    d': "tsub true pred = Inr d'"
        "data b = replicate (out_count out) (- ((\<Sum>x\<leftarrow>data d'. \<bar>x\<bar>) / real (length (data d'))))"
    by blast
  from d(1) d'(1) have "d' = d" by simp
  with d(2) d'(2) have "data a = data b" by simp
  moreover from d(2) have "data a = replicate (length (data a)) (- ((\<Sum>x\<leftarrow>data d. \<bar>x\<bar>) / real (length (data d))))"
    by simp
  ultimately show ?thesis by blast
qed

lemma single_mse: "fst (mse_loss true pred r None) = Inr a \<Longrightarrow> length (data a) = 1"
  using mse_loss_result [of true pred r None a] by (auto simp: out_count_def)

lemma single_mae: "fst (mae_loss true pred r None) = Inr a \<Longrightarrow> length (data a) = 1"
  using mae_loss_result [of true pred r None a] by (auto simp: out_count_def)

lemma bcewl_Some_eq:
  "binary_cross_entropy_with_logits true pred epsilon (Some w) r out =
     (if r = ''none'' \<or> r = ''sum'' \<or> r = ''mean'' then
        (case pos_weight_result true pred epsilon w of
           Inl e \<Rightarrow> (Inl e, out)
         | Inr l \<Rightarrow> reduce_loss r l out)
      else (Inl ValueError, out))"
  by (simp add: binary_cross_entropy_with_logits_def check_reduction_eq pos_weight_result_def
      Let_def)

lemma bcewl_None_eq:
  "binary_cross_entropy_with_logits true pred epsilon None r out =
     (if r = ''none'' \<or> r = ''sum'' \<or> r = ''mean'' then
        binary_cross_entropy true (tsigmoid pred) epsilon r out
      else (Inl ValueError, out))"
  by (simp add: binary_cross_entropy_with_logits_def check_reduction_eq Let_def)

lemma binary_cross_entropy_eq:
  "binary_cross_entropy true pred epsilon r out =
     (if r = ''none'' \<or> r = ''sum'' \<or> r = ''mean'' then
        (case unweighted_result true pred epsilon of
           Inl e \<Rightarrow> (Inl e, out)
         | Inr l \<Rightarrow> reduce_loss r l out)
      else (Inl ValueError, out))"
  by (simp add: binary_cross_entropy_def check_reduction_eq unweighted_result_def Let_def)

lemma sum_list_uminus: "sum_list (map uminus xs) = - sum_list (xs :: real list)"
  by (induction xs) simp_all

lemma data_tneg: "data (tneg t) = map uminus (data t)"
  by (simp add: tneg_def tmap_def)

lemma reduction_consistent_reduce:
  "reduction_consistent (\<lambda>r. case m of Inl e \<Rightarrow> (Inl e, None) | Inr l \<Rightarrow> reduce_loss r l None)"
  by (cases m)
    (simp_all add: reduction_consistent_def reduce_loss_none reduce_loss_sum reduce_loss_mean
      write_out_None data_tneg sum_list_uminus)

lemma reduction_consistent_cong:
  assumes "f ''none'' = g ''none''" "f ''sum'' = g ''sum''" "f ''mean'' = g ''mean''"
  shows "reduction_consistent f = reduction_consistent g"
  unfolding reduction_consistent_def by (simp only: assms)

lemma bcewl_consistent:
  "reduction_consistent (\<lambda>r. binary_cross_entropy_with_logits true pred epsilon pos_weight r None)"
proof (cases pos_weight)
  case None
  have "reduction_consistent (\<lambda>r. binary_cross_entropy_with_logits true pred epsilon None r None)
      = reduction_consistent (\<lambda>r. case unweighted_result true (tsigmoid pred) epsilon of
          Inl e \<Rightarrow> (Inl e, None) | Inr l \<Rightarrow> reduce_loss r l None)"
    by (rule reduction_consistent_cong) (simp_all add: bcewl_None_eq binary_cross_entropy_eq)
  with None show ?thesis by (simp add: reduction_consistent_reduce)
next
  case (Some w)
  have "reduction_consistent (\<lambda>r. binary_cross_entropy_with_logits true pred epsilon (Some w) r None)
      = reduction_consistent (\<lambda>r. case pos_weight_result true pred epsilon w of
          Inl e \<Rightarrow> (Inl e, None) | Inr l \<Rightarrow> reduce_loss r l None)"
    by (rule reduction_consistent_cong) (simp_all add: bcewl_Some_eq)
  with Some show ?thesis by (simp add: reduction_consistent_reduce)
qed

lemma mse_consistent: "reduction_consistent (\<lambda>r. mse_loss true pred r None)"
proof -
  have "reduction_consistent (\<lambda>r. mse_loss true pred r None)
      = reduction_consistent (\<lambda>r. case bind_err (tsub true pred) (\<lambda>d. tmean_keepdims (tsquare d)) of
          Inl e \<Rightarrow> (Inl e, None) | Inr l \<Rightarrow> reduce_loss r l None)"
    by (rule reduction_consistent_cong) (simp_all add: mse_loss_def check_reduction_eq)
  then show ?thesis by (simp add: reduction_consistent_reduce)
qed

lemma mae_consistent: "reduction_consistent (\<lambda>r. mae_loss true pred r None)"
proof -
  have "reduction_consistent (\<lambda>r. mae_loss true pred r None)
      = reduction_consistent (\<lambda>r. case bind_err (tsub true pred) (\<lambda>d. tmean_keepdims (tabs d)) of
          Inl e \<Rightarrow> (Inl e, None) | Inr l \<Rightarrow> reduce_loss r l None)"
    by (rule reduction_consistent_cong) (simp_all add: mae_loss_def check_reduction_eq)
  then show ?thesis by (simp add: reduction_consistent_reduce)
qed

lemma pw_example:
  "pos_weight_result \<lparr>shape = [2], data = [1, 0]\<rparr> \<lparr>shape = [2], data = [0, 0]\<rparr> (1 / 4)
      \<lparr>shape = [], data = [3]\<rparr> = Inr \<lparr>shape = [2], data = [3 * ln (1 / 2), ln (1 / 2)]\<rparr>"
  by (simp add: pos_weight_result_def Let_def tclip_def tsigmoid_def tmap_def sigmoid_def clip_def
     tlog_def bind_err_def tneg_def one_minus_def tmul_def tadd_def tbinop_def broadcast_shapes_def tabulate_def tget_def upt_rec)

lemma uw_example:
  "unweighted_result \<lparr>shape = [2], data = [1, 0]\<rparr> (tsigmoid \<lparr>shape = [2], data = [0, 0]\<rparr>) (1 / 4)
      = Inr \<lparr>shape = [2], data = [ln (1 / 2), ln (1 / 2)]\<rparr>"
  by (simp add: unweighted_result_def Let_def tclip_def tsigmoid_def tmap_def sigmoid_def clip_def
     tlog_def bind_err_def tneg_def one_minus_def tmul_def tadd_def tbinop_def broadcast_shapes_def tabulate_def tget_def upt_rec)

lemma tsub_example2:
  "tsub \<lparr>shape = [2], data = [1, 0]\<rparr> \<lparr>shape = [2], data = [0, 0]\<rparr>
     = Inr \<lparr>shape = [2], data = [1, 0]\<rparr>"
  by (simp add: tsub_def tbinop_def broadcast_shapes_def tabulate_def tget_def upt_rec)

lemma tsub_same:
  "tsub t t = Inr \<lparr>shape = shape t, data = replicate (prod_list (shape t)) 0\<rparr>"
  by (simp add: tsub_def tbinop_def broadcast_shapes_same tabulate_def map_replicate_const
      length_all_indices)

section \<open>The documented example\<close>

text \<open>
  Claim C1, at its input. For true = [1, 2, 3, 4] and pred = [0.9, 2.1, 2.8, 4.2] the
  squared differences are 0.01, 0.01, 0.04 and 0.04 and the absolute differences 0.1,
  0.1, 0.2 and 0.2; their means are 0.025 and 0.15, and the reduction helper negates
  them: \<^verbatim>\<open>mse_loss\<close> with reduction mean returns -0.025 (the docstring and
  the claim say 0.1075) and \<^verbatim>\<open>mae_loss\<close> with reduction mean returns -0.15 (they
  say 0.15).
\<close>

theorem example_mse_mae_values:
  "mse_loss \<lparr>shape = [4], data = [1, 2, 3, 4]\<rparr>
            \<lparr>shape = [4], data = [9 / 10, 21 / 10, 28 / 10, 42 / 10]\<rparr> ''mean'' None
     = (Inr (scalar (- (25 / 1000))), None)
   \<and> mae_loss \<lparr>shape = [4], data = [1, 2, 3, 4]\<rparr>
              \<lparr>shape = [4], data = [9 / 10, 21 / 10, 28 / 10, 42 / 10]\<rparr> ''mean'' None
     = (Inr (scalar (- (15 / 100))), None)"
  by (simp add: mse_loss_def mae_loss_def check_elem_in_list_def bind_err_def tsub_def
      tbinop_def broadcast_shapes_def tabulate_def tget_def upt_rec tmean_keepdims_def
      tsquare_def tabs_def tmap_def reduce_loss_def tmean_def write_out_def scalar_def tneg_def)

section \<open>Validation comes first\<close>

text \<open>
  Claim C6. With a reduction string other than none, sum and mean, each of the three
  functions fails with the value error, whatever the tensors are (so also on tensors on
  which the tensor operations themselves would fail: none of them has run), returns no
  result, and leaves the output buffer as it was.
\<close>

theorem invalid_reduction_fails_first:
  assumes "r \<noteq> ''none''" and "r \<noteq> ''sum''" and "r \<noteq> ''mean''"
  shows "binary_cross_entropy_with_logits true pred epsilon pos_weight r out = (Inl ValueError, out)
       \<and> mse_loss true pred r out = (Inl ValueError, out)
       \<and> mae_loss true pred r out = (Inl ValueError, out)"
  using assms
  by (simp add: binary_cross_entropy_with_logits_def mse_loss_def mae_loss_def
      check_reduction_eq)

theorem invalid_reduction_fails_first_witness:
  "binary_cross_entropy_with_logits \<lparr>shape = [2], data = [0, 1]\<rparr> \<lparr>shape = [3], data = [1, 2, 3]\<rparr>
       (1 / 10) (Some \<lparr>shape = [1], data = [2]\<rparr>) ''median'' (Some \<lparr>shape = [2], data = [7, 7]\<rparr>)
     = (Inl ValueError, Some \<lparr>shape = [2], data = [7, 7]\<rparr>)
   \<and> mse_loss \<lparr>shape = [2], data = [0, 1]\<rparr> \<lparr>shape = [3], data = [1, 2, 3]\<rparr>
       ''median'' (Some \<lparr>shape = [2], data = [7, 7]\<rparr>)
     = (Inl ValueError, Some \<lparr>shape = [2], data = [7, 7]\<rparr>)
   \<and> mae_loss \<lparr>shape = [2], data = [0, 1]\<rparr> \<lparr>shape = [3], data = [1, 2, 3]\<rparr>
       ''median'' (Some \<lparr>shape = [2], data = [7, 7]\<rparr>)
     = (Inl ValueError, Some \<lparr>shape = [2], data = [7, 7]\<rparr>)"
  using invalid_reduction_fails_first [of "''median''" "\<lparr>shape = [2], data = [0, 1]\<rparr>"
      "\<lparr>shape = [3], data = [1, 2, 3]\<rparr>" "1 / 10" "Some \<lparr>shape = [1], data = [2]\<rparr>"
      "Some \<lparr>shape = [2], data = [7, 7]\<rparr>"]
  by simp

section \<open>Mean first, reduction second\<close>

text \<open>
  Claim C2, at an input. For true = [[1, 2], [3, 4]] and pred = [1, 4] the differences
  are 0, -2, 2 and 0; the mean of their squares is 2 and the mean of their absolute
  values is 1. With reduction none and no output buffer \<^verbatim>\<open>mse_loss\<close> returns the
  keepdims tensor [[-2]] and \<^verbatim>\<open>mae_loss\<close> returns [[-1]]: the mean is taken
  first and with the keepdims shape, as the claim says, but what the reduction helper
  returns for none is the negative of that mean, not the mean itself.
\<close>

theorem mse_mae_none_returns_negated_mean:
  "tsub \<lparr>shape = [2, 2], data = [1, 2, 3, 4]\<rparr> \<lparr>shape = [2], data = [1, 4]\<rparr>
     = Inr \<lparr>shape = [2, 2], data = [0, - 2, 2, 0]\<rparr>
   \<and> tmean_keepdims (tsquare \<lparr>shape = [2, 2], data = [0, - 2, 2, 0]\<rparr>)
     = Inr \<lparr>shape = [1, 1], data = [2]\<rparr>
   \<and> tmean_keepdims (tabs \<lparr>shape = [2, 2], data = [0, - 2, 2, 0]\<rparr>)
     = Inr \<lparr>shape = [1, 1], data = [1]\<rparr>
   \<and> mse_loss \<lparr>shape = [2, 2], data = [1, 2, 3, 4]\<rparr> \<lparr>shape = [2], data = [1, 4]\<rparr> ''none'' None
     = (Inr \<lparr>shape = [1, 1], data = [- 2]\<rparr>, None)
   \<and> mae_loss \<lparr>shape = [2, 2], data = [1, 2, 3, 4]\<rparr> \<lparr>shape = [2], data = [1, 4]\<rparr> ''none'' None
     = (Inr \<lparr>shape = [1, 1], data = [- 1]\<rparr>, None)"
  by (simp add: mse_loss_eq mae_loss_eq tsub_example reduce_loss_single write_out_None
      tmean_keepdims_def tsquare_def tabs_def tmap_def)

section \<open>One value for every reduction\<close>

text \<open>
  Claim C10. For all tensors, \<^verbatim>\<open>mse_loss\<close> without an output buffer either fails
  in the same way for none, sum and mean or returns tensors with the same elements for the
  three of them, and so does \<^verbatim>\<open>mae_loss\<close>. What is returned then has exactly one
  element, whatever the number of elements of the inputs: never the elementwise losses.
  With an output buffer any two calls that return, return the same elements, and they are
  copies of one number.
\<close>

theorem mse_mae_same_value_for_all_reductions:
  "map_sum id data (fst (mse_loss true pred ''none'' None))
     = map_sum id data (fst (mse_loss true pred ''sum'' None))
   \<and> map_sum id data (fst (mse_loss true pred ''sum'' None))
     = map_sum id data (fst (mse_loss true pred ''mean'' None))
   \<and> map_sum id data (fst (mae_loss true pred ''none'' None))
     = map_sum id data (fst (mae_loss true pred ''sum'' None))
   \<and> map_sum id data (fst (mae_loss true pred ''sum'' None))
     = map_sum id data (fst (mae_loss true pred ''mean'' None))
   \<and> (\<forall>r a. fst (mse_loss true pred r None) = Inr a \<longrightarrow> length (data a) = 1)
   \<and> (\<forall>r a. fst (mae_loss true pred r None) = Inr a \<longrightarrow> length (data a) = 1)
   \<and> (\<forall>r1 r2 a b. fst (mse_loss true pred r1 out) = Inr a \<longrightarrow>
          fst (mse_loss true pred r2 out) = Inr b \<longrightarrow>
          data a = data b \<and> (\<exists>v. data a = replicate (length (data a)) v))
   \<and> (\<forall>r1 r2 a b. fst (mae_loss true pred r1 out) = Inr a \<longrightarrow>
          fst (mae_loss true pred r2 out) = Inr b \<longrightarrow>
          data a = data b \<and> (\<exists>v. data a = replicate (length (data a)) v))"
proof (intro conjI allI impI)
  show "map_sum id data (fst (mse_loss true pred ''none'' None))
     = map_sum id data (fst (mse_loss true pred ''sum'' None))"
    by (simp add: mse_loss_None_data)
  show "map_sum id data (fst (mse_loss true pred ''sum'' None))
     = map_sum id data (fst (mse_loss true pred ''mean'' None))"
    by (simp add: mse_loss_None_data)
  show "map_sum id data (fst (mae_loss true pred ''none'' None))
     = map_sum id data (fst (mae_loss true pred ''sum'' None))"
    by (simp add: mae_loss_None_data)
  show "map_sum id data (fst (mae_loss true pred ''sum'' None))
     = map_sum id data (fst (mae_loss true pred ''mean'' None))"
    by (simp add: mae_loss_None_data)
next
  fix r a assume "fst (mse_loss true pred r None) = Inr a"
  then show "length (data a) = 1" by (rule single_mse)
next
  fix r a assume "fst (mae_loss true pred r None) = Inr a"
  then show "length (data a) = 1" by (rule single_mae)
next
  fix r1 r2 a b
  assume "fst (mse_loss true pred r1 out) = Inr a" "fst (mse_loss true pred r2 out) = Inr b"
  then have *: "data a = data b \<and> (\<exists>v. data a = replicate (length (data a)) v)"
    by (rule same_data_mse)
  from * show "data a = data b" by blast
  from * show "\<exists>v. data a = replicate (length (data a)) v" by blast
next
  fix r1 r2 a b
  assume "fst (mae_loss true pred r1 out) = Inr a" "fst (mae_loss true pred r2 out) = Inr b"
  then have *: "data a = data b \<and> (\<exists>v. data a = replicate (length (data a)) v)"
    by (rule same_data_mae)
  from * show "data a = data b" by blast
  from * show "\<exists>v. data a = replicate (length (data a)) v" by blast
qed

theorem mse_mae_same_value_for_all_reductions_witness:
  "map_sum id data (fst (mse_loss \<lparr>shape = [2, 2], data = [1, 2, 3, 4]\<rparr>
        \<lparr>shape = [2], data = [1, 4]\<rparr> ''none'' None)) = Inr [- 2]
   \<and> map_sum id data (fst (mse_loss \<lparr>shape = [2, 2], data = [1, 2, 3, 4]\<rparr>
        \<lparr>shape = [2], data = [1, 4]\<rparr> ''sum'' None)) = Inr [- 2]
   \<and> map_sum id data (fst (mse_loss \<lparr>shape = [2, 2], data = [1, 2, 3, 4]\<rparr>
        \<lparr>shape = [2], data = [1, 4]\<rparr> ''mean'' None)) = Inr [- 2]
   \<and> map_sum id data (fst (mae_loss \<lparr>shape = [2, 2], data = [1, 2, 3, 4]\<rparr>
        \<lparr>shape = [2], data = [1, 4]\<rparr> ''none'' None)) = Inr [- 1]
   \<and> map_sum id data (fst (mae_loss \<lparr>shape = [2, 2], data = [1, 2, 3, 4]\<rparr>
        \<lparr>shape = [2], data = [1, 4]\<rparr> ''sum'' None)) = Inr [- 1]
   \<and> map_sum id data (fst (mae_loss \<lparr>shape = [2, 2], data = [1, 2, 3, 4]\<rparr>
        \<lparr>shape = [2], data = [1, 4]\<rparr> ''mean'' None)) = Inr [- 1]"
proof -
  have n: "map_sum id data (fst (mse_loss \<lparr>shape = [2, 2], data = [1, 2, 3, 4]\<rparr>
        \<lparr>shape = [2], data = [1, 4]\<rparr> ''none'' None)) = Inr [- 2]"
    by (simp add: mse_loss_None_data tsub_example)
  have m: "map_sum id data (fst (mae_loss \<lparr>shape = [2, 2], data = [1, 2, 3, 4]\<rparr>
        \<lparr>shape = [2], data = [1, 4]\<rparr> ''none'' None)) = Inr [- 1]"
    by (simp add: mae_loss_None_data tsub_example)
  from n m mse_mae_same_value_for_all_reductions [of "\<lparr>shape = [2, 2], data = [1, 2, 3, 4]\<rparr>"
      "\<lparr>shape = [2], data = [1, 4]\<rparr>" None]
  show ?thesis by simp
qed

section \<open>Reduction consistency\<close>

text \<open>
  Claim C3. For all inputs and each of \<^verbatim>\<open>binary_cross_entropy_with_logits\<close>
  (with or without a positive weight), \<^verbatim>\<open>mse_loss\<close> and \<^verbatim>\<open>mae_loss\<close>,
  called without an output buffer: when the call with reduction none returns a tensor, the
  call with sum returns the sum of that tensor's elements and the call with mean returns
  that sum divided by the number of the elements (and fails where there is no element to
  divide by).
\<close>

theorem reduction_consistency:
  "reduction_consistent (\<lambda>r. binary_cross_entropy_with_logits true pred epsilon pos_weight r None)
   \<and> reduction_consistent (\<lambda>r. mse_loss true pred r None)
   \<and> reduction_consistent (\<lambda>r. mae_loss true pred r None)"
  by (simp add: bcewl_consistent mse_consistent mae_consistent)

theorem reduction_consistency_witness:
  "fst (binary_cross_entropy_with_logits \<lparr>shape = [2], data = [1, 0]\<rparr>
          \<lparr>shape = [2], data = [0, 0]\<rparr> (1 / 4) (Some \<lparr>shape = [], data = [3]\<rparr>) ''sum'' None)
     = Inr (scalar (- (3 * ln (1 / 2) + ln (1 / 2))))
   \<and> fst (binary_cross_entropy_with_logits \<lparr>shape = [2], data = [1, 0]\<rparr>
          \<lparr>shape = [2], data = [0, 0]\<rparr> (1 / 4) (Some \<lparr>shape = [], data = [3]\<rparr>) ''mean'' None)
     = Inr (scalar (- ((3 * ln (1 / 2) + ln (1 / 2)) / 2)))
   \<and> fst (mse_loss \<lparr>shape = [2], data = [1, 0]\<rparr> \<lparr>shape = [2], data = [0, 0]\<rparr>
          ''sum'' None) = Inr (scalar (- (1 / 2)))
   \<and> fst (mae_loss \<lparr>shape = [2], data = [1, 0]\<rparr> \<lparr>shape = [2], data = [0, 0]\<rparr>
          ''mean'' None) = Inr (scalar (- (1 / 2)))"
proof -
  have b: "fst (binary_cross_entropy_with_logits \<lparr>shape = [2], data = [1, 0]\<rparr>
          \<lparr>shape = [2], data = [0, 0]\<rparr> (1 / 4) (Some \<lparr>shape = [], data = [3]\<rparr>) ''none'' None)
     = Inr \<lparr>shape = [2], data = [- (3 * ln (1 / 2)), - ln (1 / 2)]\<rparr>"
    by (simp add: bcewl_Some_eq pw_example reduce_loss_none write_out_None tneg_record)
  have m: "fst (mse_loss \<lparr>shape = [2], data = [1, 0]\<rparr> \<lparr>shape = [2], data = [0, 0]\<rparr>
          ''none'' None) = Inr \<lparr>shape = [1], data = [- (1 / 2)]\<rparr>"
    by (simp add: mse_loss_eq tsub_example2 reduce_loss_none write_out_None tneg_record)
  have a: "fst (mae_loss \<lparr>shape = [2], data = [1, 0]\<rparr> \<lparr>shape = [2], data = [0, 0]\<rparr>
          ''none'' None) = Inr \<lparr>shape = [1], data = [- (1 / 2)]\<rparr>"
    by (simp add: mae_loss_eq tsub_example2 reduce_loss_none write_out_None tneg_record)
  from reduction_consistency [of "\<lparr>shape = [2], data = [1, 0]\<rparr>" "\<lparr>shape = [2], data = [0, 0]\<rparr>"
      "1 / 4" "Some \<lparr>shape = [], data = [3]\<rparr>"]
  show ?thesis
    by (simp add: reduction_consistent_def b m a)
qed

section \<open>Without a positive weight\<close>

text \<open>
  Claim C5. When no positive weight is given and the reduction is valid, the outcome of
  \<^verbatim>\<open>binary_cross_entropy_with_logits\<close> is the outcome of the unweighted primitive
  on the labels and the sigmoid of the logits, with the same epsilon, reduction and output
  buffer; the probabilities handed over are the plain sigmoids, not clipped.
\<close>

theorem no_pos_weight_delegates:
  assumes "r = ''none'' \<or> r = ''sum'' \<or> r = ''mean''"
  shows "binary_cross_entropy_with_logits true pred epsilon None r out
           = binary_cross_entropy true (tsigmoid pred) epsilon r out
       \<and> shape (tsigmoid pred) = shape pred
       \<and> data (tsigmoid pred) = map (\<lambda>x. 1 / (1 + exp (- x))) (data pred)"
  using assms by (auto simp: bcewl_None_eq tsigmoid_def tmap_def sigmoid_def)

theorem no_pos_weight_delegates_witness:
  "binary_cross_entropy_with_logits \<lparr>shape = [2], data = [1, 0]\<rparr> \<lparr>shape = [2], data = [0, 0]\<rparr>
       (1 / 4) None ''sum'' None
     = (Inr (scalar (- ln (1 / 2) + - ln (1 / 2))), None)"
  using no_pos_weight_delegates [of "''sum''" "\<lparr>shape = [2], data = [1, 0]\<rparr>"
      "\<lparr>shape = [2], data = [0, 0]\<rparr>" "1 / 4" None]
  by (simp add: binary_cross_entropy_eq uw_example reduce_loss_sum write_out_None)

section \<open>The output buffer\<close>

lemma write_out_buffer:
  "fst (write_out v (Some b)) = Inr a \<Longrightarrow> snd (write_out v (Some b)) = Some a"
  by (auto simp: write_out_def split: option.splits)

lemma reduce_loss_buffer:
  "fst (reduce_loss r l (Some b)) = Inr a \<Longrightarrow> snd (reduce_loss r l (Some b)) = Some a"
  by (auto simp: reduce_loss_def write_out_buffer split: sum.splits)

lemma reduce_case_buffer:
  "fst (case m of Inl e \<Rightarrow> (Inl e, Some b) | Inr l \<Rightarrow> reduce_loss r l (Some b)) = Inr a \<Longrightarrow>
   snd (case m of Inl e \<Rightarrow> (Inl e, Some b) | Inr l \<Rightarrow> reduce_loss r l (Some b)) = Some a"
  by (cases m) (simp_all add: reduce_loss_buffer)

lemma mse_buffer:
  "fst (mse_loss true pred r (Some b)) = Inr a \<Longrightarrow> snd (mse_loss true pred r (Some b)) = Some a"
  unfolding mse_loss_def
  by (cases "check_elem_in_list r [''none'', ''sum'', ''mean'']") (simp_all add: reduce_case_buffer)

lemma mae_buffer:
  "fst (mae_loss true pred r (Some b)) = Inr a \<Longrightarrow> snd (mae_loss true pred r (Some b)) = Some a"
  unfolding mae_loss_def
  by (cases "check_elem_in_list r [''none'', ''sum'', ''mean'']") (simp_all add: reduce_case_buffer)

lemma bce_buffer:
  "fst (binary_cross_entropy true pred epsilon r (Some b)) = Inr a \<Longrightarrow>
   snd (binary_cross_entropy true pred epsilon r (Some b)) = Some a"
  by (cases "r = ''none'' \<or> r = ''sum'' \<or> r = ''mean''")
    (simp_all add: binary_cross_entropy_eq reduce_case_buffer)

lemma bcewl_buffer:
  "fst (binary_cross_entropy_with_logits true pred epsilon pos_weight r (Some b)) = Inr a \<Longrightarrow>
   snd (binary_cross_entropy_with_logits true pred epsilon pos_weight r (Some b)) = Some a"
proof (cases pos_weight)
  case None
  assume "fst (binary_cross_entropy_with_logits true pred epsilon pos_weight r (Some b)) = Inr a"
  with None show ?thesis
    by (cases "r = ''none'' \<or> r = ''sum'' \<or> r = ''mean''") (simp_all add: bcewl_None_eq bce_buffer)
next
  case (Some w)
  assume "fst (binary_cross_entropy_with_logits true pred epsilon pos_weight r (Some b)) = Inr a"
  with Some show ?thesis
    by (cases "r = ''none'' \<or> r = ''sum'' \<or> r = ''mean''") (simp_all add: bcewl_Some_eq reduce_case_buffer)
qed

text \<open>
  Claim C8. When an output buffer is supplied and the call returns a tensor, the buffer
  holds that tensor after the call, for each of the three functions.
\<close>

theorem output_buffer_holds_result:
  "(fst (binary_cross_entropy_with_logits true pred epsilon pos_weight r (Some b)) = Inr a \<longrightarrow>
      snd (binary_cross_entropy_with_logits true pred epsilon pos_weight r (Some b)) = Some a)
   \<and> (fst (mse_loss true pred r (Some b)) = Inr a \<longrightarrow>
      snd (mse_loss true pred r (Some b)) = Some a)
   \<and> (fst (mae_loss true pred r (Some b)) = Inr a \<longrightarrow>
      snd (mae_loss true pred r (Some b)) = Some a)"
  by (simp add: bcewl_buffer mse_buffer mae_buffer)


theorem output_buffer_holds_result_witness:
  "snd (binary_cross_entropy_with_logits \<lparr>shape = [2], data = [1, 0]\<rparr>
          \<lparr>shape = [2], data = [0, 0]\<rparr> (1 / 4) (Some \<lparr>shape = [], data = [3]\<rparr>) ''none''
          (Some \<lparr>shape = [2], data = [7, 7]\<rparr>))
     = Some \<lparr>shape = [2], data = [- (3 * ln (1 / 2)), - ln (1 / 2)]\<rparr>
   \<and> snd (mse_loss \<lparr>shape = [2], data = [1, 0]\<rparr> \<lparr>shape = [2], data = [0, 0]\<rparr> ''none''
          (Some \<lparr>shape = [2], data = [7, 7]\<rparr>))
     = Some \<lparr>shape = [2], data = [- (1 / 2), - (1 / 2)]\<rparr>
   \<and> snd (mae_loss \<lparr>shape = [2], data = [1, 0]\<rparr> \<lparr>shape = [2], data = [0, 0]\<rparr> ''none''
          (Some \<lparr>shape = [2], data = [7, 7]\<rparr>))
     = Some \<lparr>shape = [2], data = [- (1 / 2), - (1 / 2)]\<rparr>"
proof -
  have b: "fst (binary_cross_entropy_with_logits \<lparr>shape = [2], data = [1, 0]\<rparr>
          \<lparr>shape = [2], data = [0, 0]\<rparr> (1 / 4) (Some \<lparr>shape = [], data = [3]\<rparr>) ''none''
          (Some \<lparr>shape = [2], data = [7, 7]\<rparr>))
     = Inr \<lparr>shape = [2], data = [- (3 * ln (1 / 2)), - ln (1 / 2)]\<rparr>"
    by (simp add: bcewl_Some_eq pw_example reduce_loss_none write_out_def broadcast_to_def
        broadcast_shapes_def tabulate_def tget_def upt_rec tneg_record)
  have m: "fst (mse_loss \<lparr>shape = [2], data = [1, 0]\<rparr> \<lparr>shape = [2], data = [0, 0]\<rparr> ''none''
          (Some \<lparr>shape = [2], data = [7, 7]\<rparr>))
     = Inr \<lparr>shape = [2], data = [- (1 / 2), - (1 / 2)]\<rparr>"
    by (simp add: mse_loss_eq tsub_example2 reduce_loss_none write_out_def broadcast_to_def
        broadcast_shapes_def tabulate_def tget_def upt_rec tneg_record)
  have a: "fst (mae_loss \<lparr>shape = [2], data = [1, 0]\<rparr> \<lparr>shape = [2], data = [0, 0]\<rparr> ''none''
          (Some \<lparr>shape = [2], data = [7, 7]\<rparr>))
     = Inr \<lparr>shape = [2], data = [- (1 / 2), - (1 / 2)]\<rparr>"
    by (simp add: mae_loss_eq tsub_example2 reduce_loss_none write_out_def broadcast_to_def
        broadcast_shapes_def tabulate_def tget_def upt_rec tneg_record)
  from b m a output_buffer_holds_result [of "\<lparr>shape = [2], data = [1, 0]\<rparr>"
      "\<lparr>shape = [2], data = [0, 0]\<rparr>" "1 / 4" "Some \<lparr>shape = [], data = [3]\<rparr>" "''none''"
      "\<lparr>shape = [2], data = [7, 7]\<rparr>"]
  show ?thesis by simp
qed

section \<open>Identical inputs\<close>

text \<open>
  Claim C7, as the code has it. For a well-formed tensor \<open>t\<close> with at least one
  element, all of whose elements are finite numbers (the real elements of the model: no
  infinity and no not-a-number value, for which \<open>t - t\<close> is not zero in the
  program), and a valid reduction, \<^verbatim>\<open>mse_loss\<close> of \<open>t\<close> and \<open>t\<close>
  returns zero: one element without an output buffer, zeros only with one. The negation
  of the reduction helper leaves zero as it is.
\<close>

theorem mse_loss_same_tensor_zero:
  assumes "wf_tensor t" and "data t \<noteq> []" and "r = ''none'' \<or> r = ''sum'' \<or> r = ''mean''"
  shows "mse_loss t t r None =
           (Inr (if r = ''none'' then \<lparr>shape = replicate (length (shape t)) 1, data = [0]\<rparr>
                 else scalar 0), None)
       \<and> (\<forall>out a. fst (mse_loss t t r out) = Inr a \<longrightarrow> data a = replicate (length (data a)) 0)"
proof -
  from assms(1,2) have ne: "prod_list (shape t) \<noteq> 0"
    unfolding wf_tensor_def by (metis length_0_conv)
  have s: "(\<Sum>x\<leftarrow>replicate (prod_list (shape t)) (0::real). x * x) = 0"
    by (simp add: sum_list_replicate)
  from ne assms(3) s have 1: "mse_loss t t r None =
           (Inr (if r = ''none'' then \<lparr>shape = replicate (length (shape t)) 1, data = [0]\<rparr>
                 else scalar 0), None)"
    by (auto simp: mse_loss_eq tsub_same reduce_loss_single write_out_None)
  have 2: "data a = replicate (length (data a)) 0" if "fst (mse_loss t t r out) = Inr a" for out a
  proof -
    from mse_loss_result [OF that] obtain d where
      d: "tsub t t = Inr d"
         "data a = replicate (out_count out) (- ((\<Sum>x\<leftarrow>data d. x * x) / real (length (data d))))"
      by blast
    from d(1) have "data d = replicate (prod_list (shape t)) 0"
      by (auto simp: tsub_same)
    with d(2) s have "data a = replicate (out_count out) 0" by simp
    then show ?thesis by simp
  qed
  from 1 2 show ?thesis by blast
qed

theorem mse_loss_same_tensor_zero_witness:
  "mse_loss \<lparr>shape = [2], data = [3, 5]\<rparr> \<lparr>shape = [2], data = [3, 5]\<rparr> ''sum'' None
     = (Inr (scalar 0), None)"
  using mse_loss_same_tensor_zero [of "\<lparr>shape = [2], data = [3, 5]\<rparr>" "''sum''"]
  by (simp add: wf_tensor_def)

text \<open>
  Claim C7 as stated fails for a tensor without elements: the mean of no elements is
  taken, and no zero is returned, for each of the three reductions.
\<close>

theorem mse_loss_empty_not_zero:
  "mse_loss \<lparr>shape = [0], data = []\<rparr> \<lparr>shape = [0], data = []\<rparr> ''none'' None
     = (Inl EmptyMeanError, None)
   \<and> mse_loss \<lparr>shape = [0], data = []\<rparr> \<lparr>shape = [0], data = []\<rparr> ''sum'' None
     = (Inl EmptyMeanError, None)
   \<and> mse_loss \<lparr>shape = [0], data = []\<rparr> \<lparr>shape = [0], data = []\<rparr> ''mean'' None
     = (Inl EmptyMeanError, None)"
  by (simp add: mse_loss_eq tsub_same)

section \<open>The positive-weight branch\<close>

subsection \<open>Reading the result of an elementwise operation\<close>

lemma broadcast_rev_le:
  "broadcast_rev a b = Some c \<Longrightarrow> bc_le a c \<and> bc_le b c"
proof (induction a b arbitrary: c rule: broadcast_rev.induct)
  case (1 ys)
  have "bc_le ys ys" by (induction ys) auto
  with 1 show ?case by simp
next
  case (2 x xs)
  have "bc_le ys ys" for ys by (induction ys) auto
  with 2 show ?case by simp
next
  case (3 x xs y ys)
  then show ?case by (auto split: if_splits)
qed

lemma rin_le: "bc_le a c \<Longrightarrow> rin c ri \<Longrightarrow> rin a ri"
proof (induction a c arbitrary: ri rule: bc_le.induct)
  case (3 x xs y ys)
  then show ?case by (cases ri) auto
qed simp_all

lemma rin_valid: "list_all2 (<) ri rs \<Longrightarrow> rin rs ri"
  by (induction ri rs rule: list_all2_induct) auto

lemma rproj_valid: "rin rs ri \<Longrightarrow> list_all2 (<) (rproj rs ri) rs"
proof (induction rs ri rule: rin.induct)
  case (3 d ds i js)
  then show ?case by auto
qed simp_all

lemma roffset_rproj: "bc_le ra rs \<Longrightarrow> roffset ra (rproj rs ri) = roffset ra ri"
proof (induction ra rs arbitrary: ri rule: bc_le.induct)
  case (1 c)
  then show ?case by simp
next
  case (2 x xs)
  then show ?case by simp
next
  case (3 x xs y ys)
  then show ?case by (cases ri) auto
qed

lemma bc_le_refl: "bc_le a a"
  by (induction a) auto

lemma roffset_bound: "rin rs ri \<Longrightarrow> roffset rs ri < prod_list rs"
proof (induction rs ri rule: rin.induct)
  case (1 ri)
  then show ?case by simp
next
  case (2 d ds)
  then show ?case by simp
next
  case (3 d ds i js)
  then have k: "roffset ds js < prod_list ds" and di: "d = 1 \<or> i < d" by simp_all
  show ?case
  proof (cases "d = 1")
    case True
    with k show ?thesis by simp
  next
    case False
    with di have "i < d" by simp
    then have "Suc i \<le> d" by simp
    from k have "Suc (roffset ds js) \<le> prod_list ds" by simp
    then have "d * Suc (roffset ds js) \<le> d * prod_list ds" by (rule mult_le_mono2)
    with \<open>i < d\<close> False show ?thesis by simp
  qed
qed

lemma roffset_append:
  "length xs = length js \<Longrightarrow>
   roffset (xs @ [d]) (js @ [i]) = roffset xs js + prod_list xs * (if d = 1 then 0 else i)"
  by (induction xs js rule: list_induct2) (simp_all add: algebra_simps)

lemma length_concat_uniform:
  "(\<And>i. i < d \<Longrightarrow> length (f i) = p) \<Longrightarrow> length (concat (map f [0..<d])) = d * p"
  by (induction d) simp_all

lemma nth_concat_uniform:
  "(\<And>i. i < d \<Longrightarrow> length (f i) = p) \<Longrightarrow> i < d \<Longrightarrow> k < p \<Longrightarrow>
   concat (map f [0..<d]) ! (i * p + k) = f i ! k"
proof (induction d)
  case 0
  then show ?case by simp
next
  case (Suc d)
  have len: "length (concat (map f [0..<d])) = d * p"
    using Suc.prems(1) by (intro length_concat_uniform) simp
  show ?case
  proof (cases "i < d")
    case True
    then have "Suc i \<le> d" by simp
    then have "Suc i * p \<le> d * p" by (rule mult_le_mono1)
    with Suc.prems(3) have "i * p + k < d * p" by simp
    with len Suc True show ?thesis by (simp add: nth_append)
  next
    case False
    with Suc.prems(2) have "i = d" by simp
    with len show ?thesis by (simp add: nth_append)
  qed
qed

lemma enumeration:
  "list_all2 (<) j s \<Longrightarrow> all_indices s ! roffset (rev s) (rev j) = j"
proof (induction j s rule: list_all2_induct)
  case Nil
  then show ?case by simp
next
  case (Cons i js d ds)
  have k: "roffset (rev ds) (rev js) < prod_list ds"
    using roffset_bound [OF rin_valid, of "rev js" "rev ds"] Cons.hyps(2) by simp
  have len: "length (rev ds) = length (rev js)"
    using Cons.hyps(2) by (simp add: list_all2_lengthD)
  from Cons.hyps(1) have i': "(if d = 1 then 0 else i) = i" by auto
  have "roffset (rev (d # ds)) (rev (i # js)) = i * prod_list ds + roffset (rev ds) (rev js)"
    using roffset_append [OF len, of d i] i' by simp
  moreover have "concat (map (\<lambda>i. map ((#) i) (all_indices ds)) [0..<d])
      ! (i * prod_list ds + roffset (rev ds) (rev js))
      = map ((#) i) (all_indices ds) ! roffset (rev ds) (rev js)"
    by (rule nth_concat_uniform) (simp_all add: length_all_indices Cons.hyps(1) k)
  ultimately show ?case
    using k Cons.IH by (simp add: length_all_indices)
qed


lemma wf_tabulate: "wf_tensor (tabulate s f)"
  by (simp add: wf_tensor_def tabulate_def length_all_indices)

lemma wf_tmap: "wf_tensor (tmap g t) = wf_tensor t"
  by (simp add: wf_tensor_def tmap_def)

lemma reads_tmap: "reads (tmap g t) idx = reads t idx"
  by (simp add: reads_def tmap_def)

lemma tget_tmap:
  assumes "wf_tensor t" and "reads t idx"
  shows "tget (tmap g t) idx = g (tget t idx)"
proof -
  from assms(2) have "roffset (rev (shape t)) (rev idx) < prod_list (rev (shape t))"
    unfolding reads_def by (rule roffset_bound)
  with assms(1) have "roffset (rev (shape t)) (rev idx) < length (data t)"
    by (simp add: wf_tensor_def)
  then show ?thesis by (simp add: tget_def tmap_def)
qed

lemma tget_tabulate:
  assumes "rin (rev s) (rev idx)"
  shows "tget (tabulate s f) idx = f (proj s idx)"
proof -
  have v: "list_all2 (<) (proj s idx) s"
    using rproj_valid [OF assms] by (simp add: proj_def list_all2_rev1)
  have o: "roffset (rev s) (rev idx) = roffset (rev s) (rev (proj s idx))"
    using roffset_rproj [OF bc_le_refl, of "rev s" "rev idx"] by (simp add: proj_def)
  have b: "roffset (rev s) (rev idx) < length (all_indices s)"
    using roffset_bound [OF assms] by (simp add: length_all_indices)
  from b have "tget (tabulate s f) idx = f (all_indices s ! roffset (rev s) (rev idx))"
    by (simp add: tget_def tabulate_def)
  with o enumeration [OF v] show ?thesis by simp
qed

lemma tget_proj:
  assumes "bc_le (rev (shape a)) (rev s)"
  shows "tget a (proj s idx) = tget a idx"
  using roffset_rproj [OF assms, of "rev idx"] by (simp add: tget_def proj_def)

lemma broadcast_shapes_le:
  "broadcast_shapes a b = Some s \<Longrightarrow> bc_le (rev a) (rev s) \<and> bc_le (rev b) (rev s)"
  using broadcast_rev_le [of "rev a" "rev b"] by (auto simp: broadcast_shapes_def)

lemma tbinop_read:
  assumes "tbinop g x y = Inr z" and "reads z idx"
  shows "tget z idx = g (tget x idx) (tget y idx) \<and> reads x idx \<and> reads y idx \<and> wf_tensor z"
proof -
  from assms(1) obtain s where s: "broadcast_shapes (shape x) (shape y) = Some s"
    and z: "z = tabulate s (\<lambda>idx. g (tget x idx) (tget y idx))"
    by (auto simp: tbinop_def split: option.splits)
  from broadcast_shapes_le [OF s]
  have le: "bc_le (rev (shape x)) (rev s)" "bc_le (rev (shape y)) (rev s)" by simp_all
  from assms(2) z have r: "rin (rev s) (rev idx)" by (simp add: reads_def tabulate_def)
  from z have "tget z idx = g (tget x (proj s idx)) (tget y (proj s idx))"
    by (simp add: tget_tabulate [OF r])
  then have "tget z idx = g (tget x idx) (tget y idx)"
    by (simp add: tget_proj [OF le(1)] tget_proj [OF le(2)])
  moreover from le r have "reads x idx" "reads y idx"
    by (auto simp: reads_def intro: rin_le)
  moreover from z have "wf_tensor z" by (simp add: wf_tabulate)
  ultimately show ?thesis by simp
qed

lemma bind_err_Inr: "bind_err m f = Inr y \<Longrightarrow> \<exists>x. m = Inr x \<and> f x = Inr y"
  by (cases m) (simp_all add: bind_err_def)

lemma tlog_Inr: "tlog t = Inr l \<Longrightarrow> l = tmap ln t"
  by (simp add: tlog_def split: if_splits)

lemma pos_weight_result_Inr:
  assumes "pos_weight_result true pred epsilon w = Inr l"
  shows "\<exists>a b c s. tmul true (tneg (tmap ln (tclip (tsigmoid pred) epsilon (1 - epsilon)))) = Inr a
           \<and> tmul a w = Inr b
           \<and> tmul (one_minus true)
                (tneg (tmap ln (one_minus (tclip (tsigmoid pred) epsilon (1 - epsilon))))) = Inr c
           \<and> tadd b c = Inr s \<and> l = tneg s"
proof -
  let ?p = "tclip (tsigmoid pred) epsilon (1 - epsilon)"
  from assms obtain lp where lp: "tlog ?p = Inr lp"
    and 1: "bind_err (tmul true (tneg lp)) (\<lambda>a.
              bind_err (tmul a w) (\<lambda>b.
              bind_err (tlog (one_minus ?p)) (\<lambda>lq.
              bind_err (tmul (one_minus true) (tneg lq)) (\<lambda>c.
              bind_err (tadd b c) (\<lambda>s. Inr (tneg s)))))) = Inr l"
    unfolding pos_weight_result_def Let_def by (blast dest: bind_err_Inr)
  from 1 obtain a where a: "tmul true (tneg lp) = Inr a"
    and 2: "bind_err (tmul a w) (\<lambda>b.
              bind_err (tlog (one_minus ?p)) (\<lambda>lq.
              bind_err (tmul (one_minus true) (tneg lq)) (\<lambda>c.
              bind_err (tadd b c) (\<lambda>s. Inr (tneg s))))) = Inr l"
    by (blast dest: bind_err_Inr)
  from 2 obtain b where b: "tmul a w = Inr b"
    and 3: "bind_err (tlog (one_minus ?p)) (\<lambda>lq.
              bind_err (tmul (one_minus true) (tneg lq)) (\<lambda>c.
              bind_err (tadd b c) (\<lambda>s. Inr (tneg s)))) = Inr l"
    by (blast dest: bind_err_Inr)
  from 3 obtain lq where lq: "tlog (one_minus ?p) = Inr lq"
    and 4: "bind_err (tmul (one_minus true) (tneg lq)) (\<lambda>c.
              bind_err (tadd b c) (\<lambda>s. Inr (tneg s))) = Inr l"
    by (blast dest: bind_err_Inr)
  from 4 obtain c where c: "tmul (one_minus true) (tneg lq) = Inr c"
    and 5: "bind_err (tadd b c) (\<lambda>s. Inr (tneg s)) = Inr l"
    by (blast dest: bind_err_Inr)
  from 5 obtain s where s: "tadd b c = Inr s" and l: "l = tneg s"
    by (auto dest: bind_err_Inr)
  from lp lq have "lp = tmap ln ?p" "lq = tmap ln (one_minus ?p)"
    by (simp_all add: tlog_Inr)
  with a b c s l show ?thesis by blast
qed


lemma clipped_prob_eq: "clipped_prob epsilon x = clip (sigmoid x) epsilon (1 - epsilon)"
  by (simp add: clipped_prob_def clip_def sigmoid_def)

lemma tget_clipped:
  assumes "wf_tensor pred" and "reads pred idx"
  shows "tget (tclip (tsigmoid pred) epsilon (1 - epsilon)) idx = clipped_prob epsilon (tget pred idx)"
proof -
  have "wf_tensor (tmap sigmoid pred)" "reads (tmap sigmoid pred) idx"
    using assms by (simp_all add: wf_tmap reads_tmap)
  then have "tget (tmap (\<lambda>x. clip x epsilon (1 - epsilon)) (tmap sigmoid pred)) idx
      = clip (tget (tmap sigmoid pred) idx) epsilon (1 - epsilon)"
    by (rule tget_tmap)
  also have "tget (tmap sigmoid pred) idx = sigmoid (tget pred idx)"
    using assms by (rule tget_tmap)
  finally show ?thesis
    by (simp only: tclip_def tsigmoid_def clipped_prob_eq)
qed

lemma tget_neg_ln:
  assumes "wf_tensor p" and "reads p idx"
  shows "tget (tneg (tmap ln p)) idx = - ln (tget p idx)"
proof -
  have "wf_tensor (tmap ln p)" "reads (tmap ln p) idx"
    using assms by (simp_all add: wf_tmap reads_tmap)
  then have "tget (tmap uminus (tmap ln p)) idx = - tget (tmap ln p) idx"
    by (rule tget_tmap)
  also have "tget (tmap ln p) idx = ln (tget p idx)"
    using assms by (rule tget_tmap)
  finally show ?thesis by (simp add: tneg_def)
qed

lemma tget_one_minus:
  assumes "wf_tensor p" and "reads p idx"
  shows "tget (one_minus p) idx = 1 - tget p idx"
  unfolding one_minus_def using assms by (rule tget_tmap)

lemma pos_weight_result_elem:
  assumes res: "pos_weight_result true pred epsilon w = Inr l"
    and wf: "wf_tensor true" "wf_tensor pred" "wf_tensor w"
    and idx: "valid_index (shape l) idx"
  shows "tget l idx = weighted_term epsilon (tget true idx) (tget pred idx) (tget w idx)"
proof -
  let ?p = "tclip (tsigmoid pred) epsilon (1 - epsilon)"
  from pos_weight_result_Inr [OF res] obtain a b c s where
    a: "tmul true (tneg (tmap ln ?p)) = Inr a" and
    b: "tmul a w = Inr b" and
    c: "tmul (one_minus true) (tneg (tmap ln (one_minus ?p))) = Inr c" and
    s: "tadd b c = Inr s" and
    l: "l = tneg s"
    by blast
  have wfp: "wf_tensor ?p"
    using wf(2) by (simp add: tclip_def tsigmoid_def wf_tmap)
  have wfq: "wf_tensor (one_minus ?p)"
    using wfp by (simp add: one_minus_def wf_tmap)
  from idx have "rin (rev (shape l)) (rev idx)"
    by (simp add: valid_index_def rin_valid list_all2_rev)
  then have rs: "reads s idx"
    by (simp add: reads_def l tneg_def tmap_def)
  from tbinop_read [OF s [unfolded tadd_def] rs]
  have ts: "tget s idx = tget b idx + tget c idx" and rb: "reads b idx" and rc: "reads c idx"
    and wfs: "wf_tensor s" by simp_all
  from tbinop_read [OF b [unfolded tmul_def] rb]
  have tb: "tget b idx = tget a idx * tget w idx" and ra: "reads a idx" by simp_all
  from tbinop_read [OF a [unfolded tmul_def] ra]
  have ta: "tget a idx = tget true idx * tget (tneg (tmap ln ?p)) idx"
    and rp': "reads (tneg (tmap ln ?p)) idx" by simp_all
  from rp' have rp: "reads ?p idx" by (simp add: tneg_def reads_tmap)
  then have rpred: "reads pred idx" by (simp add: tclip_def tsigmoid_def reads_tmap)
  from tbinop_read [OF c [unfolded tmul_def] rc]
  have tc: "tget c idx = tget (one_minus true) idx * tget (tneg (tmap ln (one_minus ?p))) idx"
    and rt': "reads (one_minus true) idx" by simp_all
  from rt' have rt: "reads true idx" by (simp add: one_minus_def reads_tmap)
  from rp have rq: "reads (one_minus ?p) idx" by (simp add: one_minus_def reads_tmap)
  have p: "tget ?p idx = clipped_prob epsilon (tget pred idx)"
    using wf(2) rpred by (rule tget_clipped)
  have "tget l idx = - tget s idx"
    unfolding l tneg_def using wfs rs by (rule tget_tmap)
  also have "\<dots> = - (tget true idx * - ln (tget ?p idx) * tget w idx
      + (1 - tget true idx) * - ln (1 - tget ?p idx))"
    by (simp only: ts tb ta tc tget_neg_ln [OF wfp rp] tget_neg_ln [OF wfq rq]
        tget_one_minus [OF wf(1) rt] tget_one_minus [OF wfp rp])
  finally show ?thesis by (simp only: p weighted_term_def)
qed


lemma broadcast_rev_absorb: "bc_le a c \<Longrightarrow> broadcast_rev c a = Some c"
proof (induction a c rule: bc_le.induct)
  case (1 c)
  then show ?case by (cases c) simp_all
next
  case (2 x xs)
  then show ?case by simp
next
  case (3 x xs y ys)
  then show ?case by auto
qed

lemma broadcast_shapes_absorb:
  assumes "broadcast_shapes a w = Some b"
  shows "broadcast_shapes b a = Some b"
  using broadcast_rev_absorb [of "rev a" "rev b"] broadcast_shapes_le [OF assms]
  by (simp add: broadcast_shapes_def)

lemma tbinop_shape:
  "tbinop g x y = Inr z \<Longrightarrow> broadcast_shapes (shape x) (shape y) = Some (shape z)"
  by (auto simp: tbinop_def tabulate_def split: option.splits)

lemma pos_weight_result_shape:
  assumes res: "pos_weight_result true pred epsilon w = Inr l"
  shows "\<exists>s1. broadcast_shapes (shape true) (shape pred) = Some s1
            \<and> broadcast_shapes s1 (shape w) = Some (shape l)"
proof -
  let ?p = "tclip (tsigmoid pred) epsilon (1 - epsilon)"
  from pos_weight_result_Inr [OF res] obtain a b c s where
    a: "tmul true (tneg (tmap ln ?p)) = Inr a" and
    b: "tmul a w = Inr b" and
    c: "tmul (one_minus true) (tneg (tmap ln (one_minus ?p))) = Inr c" and
    s: "tadd b c = Inr s" and
    l: "l = tneg s"
    by blast
  from tbinop_shape [OF a [unfolded tmul_def]]
  have sa: "broadcast_shapes (shape true) (shape pred) = Some (shape a)"
    by (simp add: tneg_def tclip_def tsigmoid_def tmap_def)
  from tbinop_shape [OF c [unfolded tmul_def]]
  have sc: "broadcast_shapes (shape true) (shape pred) = Some (shape c)"
    by (simp add: tneg_def tclip_def tsigmoid_def one_minus_def tmap_def)
  from sa sc have ca: "shape c = shape a" by simp
  from tbinop_shape [OF b [unfolded tmul_def]]
  have sb: "broadcast_shapes (shape a) (shape w) = Some (shape b)" .
  from tbinop_shape [OF s [unfolded tadd_def]] ca
  have "broadcast_shapes (shape b) (shape a) = Some (shape s)" by simp
  with broadcast_shapes_absorb [OF sb] have "shape s = shape b" by simp
  with l have "shape l = shape b" by (simp add: tneg_def tmap_def)
  with sa sb show ?thesis by simp
qed

lemma data_clipped:
  "data (tclip (tsigmoid pred) epsilon (1 - epsilon)) = map (clipped_prob epsilon) (data pred)"
  by (simp add: tclip_def tsigmoid_def tmap_def clipped_prob_eq comp_def)

subsection \<open>The formula\<close>

text \<open>
  Claim C4. With a positive weight and a valid reduction, the outcome is the reduction
  helper applied to the tensor computed from the clipped probabilities, whose elements are
  the sigmoids of the logits clipped into \<open>[epsilon, 1 - epsilon]\<close>. That tensor has the
  shape the labels, the logits and the weight broadcast to, and for well-formed inputs its
  element at every index is
  \<open>- (true * - log p * pos_weight + (1 - true) * - log (1 - p))\<close>
  of the elements of the inputs at that index.
\<close>

theorem pos_weight_branch_formula:
  assumes "r = ''none'' \<or> r = ''sum'' \<or> r = ''mean''"
  shows "binary_cross_entropy_with_logits true pred epsilon (Some w) r out =
           (case pos_weight_result true pred epsilon w of
              Inl e \<Rightarrow> (Inl e, out)
            | Inr l \<Rightarrow> reduce_loss r l out)
       \<and> data (tclip (tsigmoid pred) epsilon (1 - epsilon)) = map (clipped_prob epsilon) (data pred)
       \<and> (\<forall>l. pos_weight_result true pred epsilon w = Inr l \<longrightarrow>
            (\<exists>s1. broadcast_shapes (shape true) (shape pred) = Some s1
                 \<and> broadcast_shapes s1 (shape w) = Some (shape l))
          \<and> (wf_tensor true \<and> wf_tensor pred \<and> wf_tensor w \<longrightarrow>
               (\<forall>idx. valid_index (shape l) idx \<longrightarrow>
                  tget l idx
                    = weighted_term epsilon (tget true idx) (tget pred idx) (tget w idx))))"
proof (intro conjI allI impI)
  show "binary_cross_entropy_with_logits true pred epsilon (Some w) r out =
           (case pos_weight_result true pred epsilon w of
              Inl e \<Rightarrow> (Inl e, out)
            | Inr l \<Rightarrow> reduce_loss r l out)"
    using assms by (simp add: bcewl_Some_eq)
  show "data (tclip (tsigmoid pred) epsilon (1 - epsilon)) = map (clipped_prob epsilon) (data pred)"
    by (rule data_clipped)
next
  fix l assume "pos_weight_result true pred epsilon w = Inr l"
  then show "\<exists>s1. broadcast_shapes (shape true) (shape pred) = Some s1
                 \<and> broadcast_shapes s1 (shape w) = Some (shape l)"
    by (rule pos_weight_result_shape)
next
  fix l idx
  assume "pos_weight_result true pred epsilon w = Inr l"
    and "wf_tensor true \<and> wf_tensor pred \<and> wf_tensor w"
    and "valid_index (shape l) idx"
  then show "tget l idx = weighted_term epsilon (tget true idx) (tget pred idx) (tget w idx)"
    by (simp add: pos_weight_result_elem)
qed

theorem pos_weight_branch_formula_witness:
  "binary_cross_entropy_with_logits \<lparr>shape = [2], data = [1, 0]\<rparr>
       \<lparr>shape = [2], data = [0, 0]\<rparr> (1 / 4) (Some \<lparr>shape = [], data = [3]\<rparr>) ''sum'' None
     = (Inr (scalar (- (3 * ln (1 / 2) + ln (1 / 2)))), None)
   \<and> weighted_term (1 / 4) 1 0 3 = 3 * ln (1 / 2)
   \<and> weighted_term (1 / 4) 0 0 3 = ln (1 / 2)"
proof -
  note t = pos_weight_branch_formula [of "''sum''" "\<lparr>shape = [2], data = [1, 0]\<rparr>"
      "\<lparr>shape = [2], data = [0, 0]\<rparr>" "1 / 4" "\<lparr>shape = [], data = [3]\<rparr>" None]
  from t have 1: "binary_cross_entropy_with_logits \<lparr>shape = [2], data = [1, 0]\<rparr>
       \<lparr>shape = [2], data = [0, 0]\<rparr> (1 / 4) (Some \<lparr>shape = [], data = [3]\<rparr>) ''sum'' None
     = (Inr (scalar (- (3 * ln (1 / 2) + ln (1 / 2)))), None)"
    by (simp add: pw_example reduce_loss_sum write_out_None)
  from t have e: "valid_index [2] idx \<Longrightarrow>
      tget \<lparr>shape = [2], data = [3 * ln (1 / 2), ln (1 / 2)]\<rparr> idx
        = weighted_term (1 / 4) (tget \<lparr>shape = [2], data = [1, 0]\<rparr> idx)
            (tget \<lparr>shape = [2], data = [0, 0]\<rparr> idx) (tget \<lparr>shape = [], data = [3]\<rparr> idx)" for idx
    by (simp add: pw_example wf_tensor_def)
  from e [of "[0]"] have 2: "weighted_term (1 / 4) 1 0 3 = 3 * ln (1 / 2)"
    by (simp add: valid_index_def tget_def)
  from e [of "[1]"] have 3: "weighted_term (1 / 4) 0 0 3 = ln (1 / 2)"
    by (simp add: valid_index_def tget_def)
  from 1 2 3 show ?thesis by simp
qed

end
